theory Spec2Isabelle
  imports Main
begin

section \<open>The environment of \<^verbatim>\<open>build.c\<close>\<close>

text \<open>
  \<^verbatim>\<open>build.c\<close> talks to its environment through \<^verbatim>\<open>stat\<close>, \<^verbatim>\<open>rename\<close>,
  \<^verbatim>\<open>unlink\<close>, \<^verbatim>\<open>realloc\<close>, \<^verbatim>\<open>fork\<close>/\<^verbatim>\<open>execvp\<close>/\<^verbatim>\<open>waitpid\<close> and the two
  output streams. The file system is a map from paths to inodes; \<^verbatim>\<open>time_t\<close> is a
  signed integer that the program only reads and compares, so it is an \<open>int\<close>.
  \<^verbatim>\<open>size_t\<close> counters are \<open>nat\<close>: \<^verbatim>\<open>capacity * 2\<close> and \<^verbatim>\<open>count++\<close> stay below
  \<open>2 ^ 64\<close> for every array that fits in memory.
\<close>

type_synonym path = string

record inode =
  st_mtime :: int
  data :: nat

type_synonym filesystem = "path \<Rightarrow> inode option"

text \<open>
  The array behind \<^verbatim>\<open>const char **args\<close>, one entry per allocated slot. A slot holds a
  pointer to a string, the null pointer, or an indeterminate value: memory that
  \<^verbatim>\<open>realloc\<close> handed out and that has never been written.
\<close>

datatype slot = Ptr string | Null | Indeterminate

type_synonym block = "slot list"

record Cmd =
  args :: block
  count :: nat
  capacity :: nat

text \<open>
  \<^verbatim>\<open>struct Target\<close>. The field \<^verbatim>\<open>output\<close> is read by \<open>output'\<close>, since \<open>output\<close> is
  a reserved word here. \<^verbatim>\<open>deps\<close> and \<^verbatim>\<open>cmd\<close> are pointers that may be \<^verbatim>\<open>NULL\<close>;
  the list is the array up to its \<^verbatim>\<open>NULL\<close> sentinel.
\<close>

datatype Target = Target (output': string) (deps: "Target list option") (cmd: "Cmd option")

text \<open>Library and system calls with an effect outside the process, in the order issued.\<close>

datatype event =
    Realloc nat
  | Fork block
  | Rename path path
  | Unlink path
  | Execvp path "string list"

text \<open>What \<^verbatim>\<open>waitpid\<close> reports: \<^verbatim>\<open>WIFEXITED\<close> with its code, \<^verbatim>\<open>WIFSIGNALED\<close> with its
  signal, or neither.\<close>

datatype wstatus = Exited nat | Signaled nat | Neither

text \<open>
  \<open>stdout\<close> and \<open>stderr\<close> are the bytes the program itself has passed to \<^verbatim>\<open>printf\<close> and
  \<^verbatim>\<open>fprintf(stderr, ...)\<close>. \<open>visits\<close> is a ghost field: the targets on which
  \<^verbatim>\<open>build_target\<close> has been entered, in order. The program never reads it.
\<close>

record world =
  fs :: filesystem
  stdout :: string
  stderr :: string
  calls :: "event list"
  visits :: "Target list"

text \<open>
  The parts of the environment the program cannot control: the value of \<^verbatim>\<open>__FILE__\<close>,
  whether \<^verbatim>\<open>realloc\<close> of that many slots and \<^verbatim>\<open>fork\<close> succeed, what a child that is
  given the argument array does to the file system and how it ends, and whether
  \<^verbatim>\<open>execvp\<close> of a path can replace the process image. A child is a function of its
  argument array and the file system it starts in.
\<close>

record env =
  src_file :: path
  realloc_ok :: "nat \<Rightarrow> bool"
  fork_ok :: "block \<Rightarrow> filesystem \<Rightarrow> bool"
  child :: "block \<Rightarrow> filesystem \<Rightarrow> wstatus \<times> filesystem"
  exec_ok :: "path \<Rightarrow> filesystem \<Rightarrow> bool"

text \<open>
  How a call ends: it returns a value, the process exits with a code (\<^verbatim>\<open>exit(1)\<close> in
  \<^verbatim>\<open>panic\<close>, \<^verbatim>\<open>return 0\<close> from \<^verbatim>\<open>main\<close>), the process image is replaced by
  \<^verbatim>\<open>execvp\<close>, or the behaviour is undefined in C (a read or write outside the block,
  or through a slot that holds no string).
\<close>

datatype 'a res =
    Ret 'a world
  | Exit nat world
  | Replaced path "string list" world
  | Undefined

section \<open>Helpers of the C library\<close>

text \<open>\<^verbatim>\<open>%d\<close> for a value that is not negative.\<close>

fun show_nat :: "nat \<Rightarrow> string" where
  "show_nat n =
     (if n < 10 then [''0123456789'' ! n]
      else show_nat (n div 10) @ [''0123456789'' ! (n mod 10)])"

declare show_nat.simps [simp del]

text \<open>\<^verbatim>\<open>strchr\<close>: the suffix from the first occurrence on, or \<^verbatim>\<open>NULL\<close>.\<close>

definition strchr :: "string \<Rightarrow> char \<Rightarrow> string option" where
  "strchr s c = (case dropWhile (\<lambda>x. x \<noteq> c) s of [] \<Rightarrow> None | r \<Rightarrow> Some r)"

text \<open>
  \<^verbatim>\<open>realloc\<close> to \<open>n\<close> slots keeps the common prefix; new slots are indeterminate.
  The array of a command is \<^verbatim>\<open>NULL\<close> (the empty block) or a block of the heap.
\<close>

definition realloc :: "block \<Rightarrow> nat \<Rightarrow> block" where
  "realloc b n = take n b @ replicate (n - length b) Indeterminate"

text \<open>\<^verbatim>\<open>snprintf(buf, size, ...)\<close> keeps at most \<open>n - 1\<close> characters.\<close>

definition snprintf :: "nat \<Rightarrow> string \<Rightarrow> string" where
  "snprintf n s = take (n - 1) s"

definition printf :: "string \<Rightarrow> world \<Rightarrow> world" where
  "printf s w = w\<lparr>stdout := stdout w @ s\<rparr>"

definition eprintf :: "string \<Rightarrow> world \<Rightarrow> world" where
  "eprintf s w = w\<lparr>stderr := stderr w @ s\<rparr>"

definition log_call :: "event \<Rightarrow> world \<Rightarrow> world" where
  "log_call ev w = w\<lparr>calls := calls w @ [ev]\<rparr>"

text \<open>
  \<^verbatim>\<open>rename\<close> and \<^verbatim>\<open>unlink\<close> fail exactly when the path they act on is absent, and
  return \<open>- 1\<close> then. Each call is logged, whether it fails or not.
\<close>

definition rename :: "path \<Rightarrow> path \<Rightarrow> world \<Rightarrow> int \<times> world" where
  "rename old new w =
     (let w1 = log_call (Rename old new) w
      in case fs w old of
           None \<Rightarrow> (- 1, w1)
         | Some f \<Rightarrow> (0, w1\<lparr>fs := ((fs w)(old := None))(new \<mapsto> f)\<rparr>))"

definition unlink :: "path \<Rightarrow> world \<Rightarrow> int \<times> world" where
  "unlink p w =
     (let w1 = log_call (Unlink p) w
      in case fs w p of
           None \<Rightarrow> (- 1, w1)
         | Some f \<Rightarrow> (0, w1\<lparr>fs := (fs w)(p := None)\<rparr>))"

section \<open>The program\<close>

definition CC :: string where
  "CC = ''gcc''"

text \<open>The \<^verbatim>\<open>CMD(...)\<close> macro: a \<^verbatim>\<open>NULL\<close>-terminated literal array, its length, capacity 0.\<close>

definition CMD :: "string list \<Rightarrow> Cmd" where
  "CMD toks = \<lparr>args = map Ptr toks @ [Null], count = length toks, capacity = 0\<rparr>"

text \<open>\<^verbatim>\<open>panic(msg, ...)\<close> at a line of \<^verbatim>\<open>build.c\<close>, with the message already formatted.\<close>

definition panic :: "env \<Rightarrow> nat \<Rightarrow> string \<Rightarrow> world \<Rightarrow> 'a res" where
  "panic e line msg w =
     Exit 1 (eprintf (''Panic at '' @ src_file e @ '':'' @ show_nat line @ '': \<newline>>>> ''
                      @ msg @ ''\<newline>'') w)"

text \<open>Lines 93 to 104: grow the array when it is full.\<close>

definition grow :: "env \<Rightarrow> Cmd \<Rightarrow> world \<Rightarrow> Cmd res" where
  "grow e c w =
     (if count c = capacity c then
        (let newsize = (if capacity c = 0 then 10 else capacity c * 2);
             w1 = log_call (Realloc newsize) w
         in if \<not> realloc_ok e newsize
            then panic e 99 ''Your garbage ran out of ram holy shit'' w1
            else Ret (c\<lparr>args := realloc (args c) newsize, capacity := capacity c + 1\<rparr>) w1)
      else Ret c w)"

text \<open>Line 106: \<^verbatim>\<open>cmd->args[cmd->count++] = cur_arg\<close>.\<close>

definition store :: "Cmd \<Rightarrow> string \<Rightarrow> world \<Rightarrow> Cmd res" where
  "store c cur_arg w =
     (if count c < length (args c)
      then Ret (c\<lparr>args := (args c)[count c := Ptr cur_arg], count := count c + 1\<rparr>) w
      else Undefined)"

text \<open>The \<^verbatim>\<open>while\<close> loop over the variadic arguments up to the \<^verbatim>\<open>NULL\<close> sentinel.\<close>

fun append_loop :: "env \<Rightarrow> Cmd \<Rightarrow> string list \<Rightarrow> world \<Rightarrow> Cmd res" where
  "append_loop e c [] w = Ret c w"
| "append_loop e c (cur_arg # rest) w =
     (case grow e c w of
        Ret c1 w1 \<Rightarrow>
          (case store c1 cur_arg w1 of
             Ret c2 w2 \<Rightarrow> append_loop e c2 rest w2
           | Exit n w' \<Rightarrow> Exit n w'
           | Replaced p a w' \<Rightarrow> Replaced p a w'
           | Undefined \<Rightarrow> Undefined)
      | Exit n w' \<Rightarrow> Exit n w'
      | Replaced p a w' \<Rightarrow> Replaced p a w'
      | Undefined \<Rightarrow> Undefined)"

text \<open>\<^verbatim>\<open>cmd_append(CMD, ...)\<close> passes the tokens and the sentinel; the pointer may be
  \<^verbatim>\<open>NULL\<close>.\<close>

definition cmd_internal_append :: "env \<Rightarrow> Cmd option \<Rightarrow> string list \<Rightarrow> world \<Rightarrow> Cmd res" where
  "cmd_internal_append e cmdp toks w =
     (case cmdp of
        None \<Rightarrow> panic e 82 ''cmd is a null pointer'' w
      | Some c \<Rightarrow> append_loop e c toks w)"

text \<open>The \<^verbatim>\<open>for\<close> loop of \<^verbatim>\<open>cmd_print\<close>, from index \<open>i\<close>.\<close>

function print_loop :: "Cmd \<Rightarrow> nat \<Rightarrow> world \<Rightarrow> unit res" where
  "print_loop c i w =
     (if i < count c then
        (if i < length (args c) then
           (case args c ! i of
              Ptr s \<Rightarrow>
                (let w1 = (if strchr s (CHR '' '') \<noteq> None
                           then printf ([CHR 0x27] @ s @ [CHR 0x27]) w
                           else printf s w);
                     w2 = (if i + 1 < count c then printf '' '' w1 else w1)
                 in print_loop c (i + 1) w2)
            | Null \<Rightarrow> Undefined
            | Indeterminate \<Rightarrow> Undefined)
         else Undefined)
      else Ret () w)"
  by pat_completeness auto
termination
  by (relation "measure (\<lambda>(c, i, w). count c - i)") auto

declare print_loop.simps [simp del]

definition cmd_print :: "Cmd \<Rightarrow> world \<Rightarrow> unit res" where
  "cmd_print c w =
     (if count c = 0 then Ret () w
      else (case print_loop c 0 w of
              Ret u w1 \<Rightarrow> Ret () (printf ''\<newline>'' w1)
            | Exit n w' \<Rightarrow> Exit n w'
            | Replaced p a w' \<Rightarrow> Replaced p a w'
            | Undefined \<Rightarrow> Undefined))"

text \<open>
  \<^verbatim>\<open>cmd_run\<close>. Of the child only its effect on the file system and its wait status
  are kept; a child whose \<^verbatim>\<open>execvp\<close> fails panics in the child and is seen as
  \<open>Exited 1\<close>. The child is given the whole block \<open>args c\<close>, as line 149 passes
  \<^verbatim>\<open>cmd->args\<close> to \<^verbatim>\<open>execvp\<close>: the array of a \<^verbatim>\<open>CMD(...)\<close> literal ends with \<open>Null\<close>, the
  one \<^verbatim>\<open>cmd_append\<close> builds has no \<open>Null\<close> written after its tokens.
\<close>

definition cmd_run :: "env \<Rightarrow> Cmd \<Rightarrow> world \<Rightarrow> int res" where
  "cmd_run e c w =
     (if count c = 0 then Ret 1 w
      else
        (case cmd_print c (printf ''[CMD] '' w) of
           Ret u w2 \<Rightarrow>
             (let w3 = log_call (Fork (args c)) w2
              in if \<not> fork_ok e (args c) (fs w3) then panic e 144 ''fork failed'' w3
                 else
                   (case child e (args c) (fs w3) of
                      (status, fs') \<Rightarrow>
                        (let w4 = w3\<lparr>fs := fs'\<rparr>
                         in case status of
                              Exited exit_code \<Rightarrow>
                                (if exit_code \<noteq> 0
                                 then Ret 0 (eprintf (''Command failed with exit code ''
                                                      @ show_nat exit_code @ ''\<newline>'') w4)
                                 else Ret 1 w4)
                            | Signaled sig \<Rightarrow>
                                panic e 168 (''Build terminated with signal ''
                                             @ show_nat sig @ ''\<newline>'') w4
                            | Neither \<Rightarrow> Ret 0 w4)))
         | Exit n w' \<Rightarrow> Exit n w'
         | Replaced p a w' \<Rightarrow> Replaced p a w'
         | Undefined \<Rightarrow> Undefined))"

text \<open>\<^verbatim>\<open>get_file_mtime\<close>: 0 when \<^verbatim>\<open>stat\<close> fails.\<close>

definition get_file_mtime :: "path \<Rightarrow> world \<Rightarrow> int" where
  "get_file_mtime p w = (case fs w p of None \<Rightarrow> 0 | Some a \<Rightarrow> st_mtime a)"

text \<open>
  \<^verbatim>\<open>go_build_urself\<close> on Linux (the \<^verbatim>\<open>_WIN32\<close> block is compiled out). \<open>argv\<close> is
  the argument vector; with an empty one \<^verbatim>\<open>argv[0]\<close> is \<^verbatim>\<open>NULL\<close> and the calls on it
  are undefined. Lines 201 to 209, after \<^verbatim>\<open>cmd_run\<close> has returned \<open>r\<close>, are
  \<open>swap_and_restart\<close>.
\<close>

definition swap_and_restart :: "env \<Rightarrow> path \<Rightarrow> path \<Rightarrow> string list \<Rightarrow> int \<Rightarrow> world \<Rightarrow> unit res" where
  "swap_and_restart e binary_path old_binary_path argv r w =
     (let w5 = (if r = 0 then snd (rename old_binary_path binary_path w) else w);
          w6 = snd (unlink old_binary_path w5);
          w7 = printf (''[INFO] Restarting '' @ binary_path @ ''...\<newline>'') w6;
          w8 = log_call (Execvp binary_path argv) w7
      in if exec_ok e binary_path (fs w8) then Replaced binary_path argv w8
         else panic e 209 ''How did we get here?'' w8)"

fun go_build_urself :: "env \<Rightarrow> string list \<Rightarrow> world \<Rightarrow> unit res" where
  "go_build_urself e [] w = Undefined"
| "go_build_urself e (binary_path # rest) w =
     (let source_path = src_file e
      in if get_file_mtime source_path w \<le> get_file_mtime binary_path w then Ret () w
         else
           (let w1 = printf ''[INFO] rebuilding'' w;
                old_binary_path = snprintf 1024 (binary_path @ ''.old'')
            in case rename binary_path old_binary_path w1 of
                 (rc, w2) \<Rightarrow>
                   if rc \<noteq> 0 then panic e 194 ''Couldnt rename old binary'' w2
                   else
                     (case cmd_internal_append e (Some \<lparr>args = [], count = 0, capacity = 0\<rparr>)
                             [CC, source_path, ''-o'', binary_path] w2 of
                        Ret c w3 \<Rightarrow>
                          (case cmd_run e c w3 of
                             Ret r w4 \<Rightarrow>
                               swap_and_restart e binary_path old_binary_path
                                 (binary_path # rest) r w4
                           | Exit n w' \<Rightarrow> Exit n w'
                           | Replaced p a w' \<Rightarrow> Replaced p a w'
                           | Undefined \<Rightarrow> Undefined)
                      | Exit n w' \<Rightarrow> Exit n w'
                      | Replaced p a w' \<Rightarrow> Replaced p a w'
                      | Undefined \<Rightarrow> Undefined)))"

text \<open>Lines 253 and 254: run the command of the target, fatal when it fails.\<close>

definition rebuild :: "env \<Rightarrow> string \<Rightarrow> Cmd \<Rightarrow> world \<Rightarrow> unit res" where
  "rebuild e out c w =
     (case cmd_run e c w of
        Ret r w1 \<Rightarrow>
          if r = 0 then panic e 254 (''Failed to build '' @ out @ ''\<newline>'') w1 else Ret () w1
      | Exit n w' \<Rightarrow> Exit n w'
      | Replaced p a w' \<Rightarrow> Replaced p a w'
      | Undefined \<Rightarrow> Undefined)"

text \<open>Lines 243 to 258: what \<^verbatim>\<open>build_target\<close> does once \<^verbatim>\<open>needs_rebuild\<close> is known.\<close>

definition finish :: "env \<Rightarrow> string \<Rightarrow> Cmd option \<Rightarrow> int \<Rightarrow> bool \<Rightarrow> world \<Rightarrow> unit res" where
  "finish e out c mtime needs_rebuild w =
     (if needs_rebuild then
        (case c of
           None \<Rightarrow>
             if mtime = 0 then panic e 248 (''No command provided to build '' @ out) w
             else Ret () w
         | Some c' \<Rightarrow> rebuild e out c' w)
      else
        (case c of
           None \<Rightarrow> Ret () w
         | Some c' \<Rightarrow> Ret () (printf (out @ '' Up to date!!!\<newline>'') w)))"

text \<open>
  \<^verbatim>\<open>build_target\<close>, with the loop over \<^verbatim>\<open>t->deps\<close> as \<open>build_deps\<close>. A target
  is a finite tree here: a dependency shared by two targets occurs under both, and
  a cyclic graph has no counterpart. \<open>nr\<close> is \<^verbatim>\<open>needs_rebuild\<close>. The only line
  that is not in the source is the first: it records the entry in the ghost field.
\<close>

fun build_target :: "env \<Rightarrow> Target \<Rightarrow> world \<Rightarrow> unit res"
  and build_deps :: "env \<Rightarrow> int \<Rightarrow> Target list \<Rightarrow> bool \<Rightarrow> world \<Rightarrow> bool res" where
  "build_target e (Target out ds c) w =
     (let w0 = w\<lparr>visits := visits w @ [Target out ds c]\<rparr>;
          mtime = get_file_mtime out w0;
          nr0 = (mtime = 0);
          nr1 = (if c \<noteq> None \<and> get_file_mtime (src_file e) w0 > mtime then True else nr0)
      in case (case ds of None \<Rightarrow> Ret nr1 w0 | Some l \<Rightarrow> build_deps e mtime l nr1 w0) of
           Ret nr w1 \<Rightarrow> finish e out c mtime nr w1
         | Exit n w' \<Rightarrow> Exit n w'
         | Replaced p a w' \<Rightarrow> Replaced p a w'
         | Undefined \<Rightarrow> Undefined)"
| "build_deps e mtime [] nr w = Ret nr w"
| "build_deps e mtime (dep # rest) nr w =
     (case build_target e dep w of
        Ret u w1 \<Rightarrow>
          build_deps e mtime rest
            (if get_file_mtime (output' dep) w1 > mtime then True else nr) w1
      | Exit n w' \<Rightarrow> Exit n w'
      | Replaced p a w' \<Rightarrow> Replaced p a w'
      | Undefined \<Rightarrow> Undefined)"

text \<open>The target graph declared in \<^verbatim>\<open>main\<close> and \<^verbatim>\<open>main\<close> itself.\<close>

definition src_main :: Target where
  "src_main = Target ''main.c'' None None"

definition main_obj :: Target where
  "main_obj = Target ''main.o'' (Some [src_main]) (Some (CMD [CC, ''main.c'', ''-c'', ''main.o'']))"

definition main_target :: Target where
  "main_target =
     Target ''main2'' (Some [src_main, main_obj]) (Some (CMD [CC, ''main.o'', ''-o'', ''main2'']))"

text \<open>Lines 60 to 68: the application's build walk, then \<^verbatim>\<open>return 0\<close>.\<close>

definition build_walk :: "env \<Rightarrow> world \<Rightarrow> unit res" where
  "build_walk e w =
     (case build_target e main_target w of
        Ret u w1 \<Rightarrow> Exit 0 w1
      | Exit n w' \<Rightarrow> Exit n w'
      | Replaced p a w' \<Rightarrow> Replaced p a w'
      | Undefined \<Rightarrow> Undefined)"

definition main :: "env \<Rightarrow> string list \<Rightarrow> world \<Rightarrow> unit res" where
  "main e argv w =
     (case go_build_urself e argv w of
        Ret u w1 \<Rightarrow> build_walk e w1
      | Exit n w' \<Rightarrow> Exit n w'
      | Replaced p a w' \<Rightarrow> Replaced p a w'
      | Undefined \<Rightarrow> Undefined)"

section \<open>What the specification says of the rendering\<close>

text \<open>
  The rendering of a token sequence in the words of the specification: a token that
  contains a space is wrapped in single quotes, the tokens are joined by single spaces,
  and one newline ends the line.
\<close>

definition quote_token :: "string \<Rightarrow> string" where
  "quote_token t = (if CHR '' '' \<in> set t then [CHR 0x27] @ t @ [CHR 0x27] else t)"

fun join_tokens :: "string list \<Rightarrow> string" where
  "join_tokens [] = []"
| "join_tokens [t] = t"
| "join_tokens (t # u # ts) = t @ '' '' @ join_tokens (u # ts)"

definition render :: "string list \<Rightarrow> string" where
  "render toks = join_tokens (map quote_token toks) @ ''\<newline>''"

section \<open>Functions used in the proofs\<close>

text \<open>
  The text \<open>print_loop\<close> writes from index \<open>i\<close> on, as a function of the command
  alone: \<open>None\<close> when the loop reads a slot that holds no string.
\<close>

function print_text :: "Cmd \<Rightarrow> nat \<Rightarrow> string option" where
  "print_text c i =
     (if i < count c then
        (if i < length (args c) then
           (case args c ! i of
              Ptr s \<Rightarrow>
                map_option
                  (\<lambda>r. (if strchr s (CHR '' '') \<noteq> None then [CHR 0x27] @ s @ [CHR 0x27] else s)
                        @ (if i + 1 < count c then '' '' else []) @ r)
                  (print_text c (i + 1))
            | Null \<Rightarrow> None
            | Indeterminate \<Rightarrow> None)
         else None)
      else Some [])"
  by pat_completeness auto
termination
  by (relation "measure (\<lambda>(c, i). count c - i)") auto

declare print_text.simps [simp del]

definition cmd_text :: "Cmd \<Rightarrow> string option" where
  "cmd_text c =
     (if count c = 0 then Some [] else map_option (\<lambda>s. s @ ''\<newline>'') (print_text c 0))"

text \<open>
  \<^verbatim>\<open>build_target\<close> in two phases. Lines 220 to 241 are \<open>deps_phase\<close>: the entry
  (recorded in the ghost field), the flag \<open>needs0\<close> set from the target's own
  timestamp and from the timestamp of \<^verbatim>\<open>__FILE__\<close>, and the loop over the
  dependencies. Lines 243 to 258 are \<open>finish\<close>.
\<close>

definition entry :: "Target \<Rightarrow> world \<Rightarrow> world" where
  "entry t w = w\<lparr>visits := visits w @ [t]\<rparr>"

definition needs0 :: "env \<Rightarrow> Target \<Rightarrow> world \<Rightarrow> bool" where
  "needs0 e t w =
     (let mtime = get_file_mtime (output' t) w;
          nr0 = (mtime = 0)
      in if cmd t \<noteq> None \<and> get_file_mtime (src_file e) w > mtime then True else nr0)"

definition deps_phase :: "env \<Rightarrow> Target \<Rightarrow> world \<Rightarrow> bool res" where
  "deps_phase e t w =
     (case deps t of
        None \<Rightarrow> Ret (needs0 e t w) (entry t w)
      | Some l \<Rightarrow> build_deps e (get_file_mtime (output' t) w) l (needs0 e t w) (entry t w))"

text \<open>
  The backup path when it fits the buffer of 1024 bytes, and the array that
  \<^verbatim>\<open>cmd_append(&cmd, CC, source_path, "-o", binary_path)\<close> leaves behind in
  \<^verbatim>\<open>go_build_urself\<close>: four tokens in a block of six slots.
\<close>

definition old_path :: "path \<Rightarrow> path" where
  "old_path b = b @ ''.old''"

definition rebuild_block :: "env \<Rightarrow> path \<Rightarrow> block" where
  "rebuild_block e b = [Ptr CC, Ptr (src_file e), Ptr ''-o'', Ptr b, Indeterminate, Indeterminate]"


definition after :: "world \<Rightarrow> world \<Rightarrow> world" where
  "after w d = \<lparr>fs = fs d, stdout = stdout w @ stdout d, stderr = stderr w @ stderr d,
                calls = calls w @ calls d, visits = visits w @ visits d\<rparr>"




text \<open>
  Between two worlds of one run: the log of calls has not shrunk, and the file system
  differs only if a call was logged.
\<close>

definition step_ok :: "world \<Rightarrow> world \<Rightarrow> bool" where
  "step_ok w w' \<longleftrightarrow>
     length (calls w) \<le> length (calls w')
     \<and> (length (calls w') = length (calls w) \<longrightarrow> fs w' = fs w)"

section \<open>Concrete environments and inputs\<close>

text \<open>
  \<open>env0\<close>: every \<^verbatim>\<open>realloc\<close>, \<^verbatim>\<open>fork\<close> and \<^verbatim>\<open>execvp\<close> succeeds and every child
  exits with code 0 without touching the file system. In \<open>env_failing\<close> every child
  exits with code 3.
\<close>

definition env0 :: env where
  "env0 = \<lparr>src_file = ''build.c'', realloc_ok = (\<lambda>n. True), fork_ok = (\<lambda>b f. True),
     child = (\<lambda>b f. (Exited 0, f)), exec_ok = (\<lambda>p f. True)\<rparr>"

definition env_failing :: env where
  "env_failing = env0\<lparr>child := (\<lambda>b f. (Exited 3, f))\<rparr>"

definition world0 :: world where
  "world0 = \<lparr>fs = Map.empty, stdout = [], stderr = [], calls = [], visits = []\<rparr>"

text \<open>\<^verbatim>\<open>Cmd cmd = {0}\<close>.\<close>

definition empty_cmd :: Cmd where
  "empty_cmd = \<lparr>args = [], count = 0, capacity = 0\<rparr>"


text \<open>
  A target \<^verbatim>\<open>t\<close> with one dependency \<^verbatim>\<open>d\<close>, a source without command: with the
  command \<^verbatim>\<open>cc\<close> (\<open>tgt_cc\<close>) and without a command (\<open>tgt_plain\<close>).
\<close>

definition src_d :: Target where
  "src_d = Target ''d'' None None"

definition tgt_cc :: Target where
  "tgt_cc = Target ''t'' (Some [src_d]) (Some (CMD [''cc'']))"

definition tgt_plain :: Target where
  "tgt_plain = Target ''t'' (Some [src_d]) None"





text \<open>
  File systems, given by the timestamps of the files that exist.
\<close>

definition file_at :: "int \<Rightarrow> inode" where
  "file_at m = \<lparr>st_mtime = m, data = 0\<rparr>"


definition world_d :: world where
  "world_d = world0\<lparr>fs := [''d'' \<mapsto> file_at 5]\<rparr>"

definition world_t_src :: world where
  "world_t_src = world0\<lparr>fs := [''t'' \<mapsto> file_at 5, ''build.c'' \<mapsto> file_at 9]\<rparr>"

definition world_t_d_src :: world where
  "world_t_d_src =
     world0\<lparr>fs := [''t'' \<mapsto> file_at 5, ''d'' \<mapsto> file_at 3, ''build.c'' \<mapsto> file_at 9]\<rparr>"

definition world_dep_newer :: world where
  "world_dep_newer = world0\<lparr>fs := [''t'' \<mapsto> file_at 5, ''d'' \<mapsto> file_at 10]\<rparr>"

definition world_fresh :: world where
  "world_fresh = world0\<lparr>fs := [''build.c'' \<mapsto> file_at 1, ''./build'' \<mapsto> file_at 2]\<rparr>"

definition world_stale :: world where
  "world_stale = world0\<lparr>fs := [''build.c'' \<mapsto> file_at 2, ''./build'' \<mapsto> file_at 1]\<rparr>"

text \<open>
  A binary path of 1023 characters, \<^verbatim>\<open>./././\<close> ... \<^verbatim>\<open>/b\<close>, older than \<^verbatim>\<open>build.c\<close>, and
  \<open>env_lost\<close>: every child exits with code 3 and \<^verbatim>\<open>execvp\<close> succeeds when there is a
  file at the path.
\<close>

definition long_path :: path where
  "long_path = concat (replicate 511 ''./'') @ ''b''"

definition env_lost :: env where
  "env_lost = env_failing\<lparr>exec_ok := (\<lambda>p f. f p \<noteq> None)\<rparr>"

definition world_long :: world where
  "world_long = world0\<lparr>fs := [long_path \<mapsto> file_at 1, ''build.c'' \<mapsto> file_at 2]\<rparr>"


section \<open>Commands\<close>

text \<open>The definitions unfolded to run the program on a concrete input.\<close>

lemmas run_defs =
  finish_def rebuild_def cmd_run_def cmd_print_def print_loop.simps strchr_def panic_def
  show_nat.simps printf_def eprintf_def log_call_def get_file_mtime_def CMD_def Let_def
  file_at_def world0_def env0_def env_failing_def entry_def deps_phase_def needs0_def

subsection \<open>Printing\<close>

lemma strchr_iff: "strchr s c = None \<longleftrightarrow> c \<notin> set s"
proof (cases "dropWhile (\<lambda>x. x \<noteq> c) s")
  case Nil
  then have "c \<notin> set s"
    unfolding dropWhile_eq_Nil_conv by blast
  then show ?thesis unfolding strchr_def Nil by simp
next
  case (Cons a as)
  have "c \<in> set s"
  proof (rule ccontr)
    assume "c \<notin> set s"
    then have "dropWhile (\<lambda>x. x \<noteq> c) s = []"
      unfolding dropWhile_eq_Nil_conv by blast
    then show False unfolding Cons by simp
  qed
  then show ?thesis unfolding strchr_def Cons by simp
qed

lemma printf_printf: "printf b (printf a w) = printf (a @ b) w"
  by (simp add: printf_def)

lemma printf_Nil: "printf [] w = w"
  by (simp add: printf_def)

lemma join_tokens_drop:
  assumes i: "i < length ts"
  shows "join_tokens (drop i ts) =
         ts ! i @ (if i + 1 < length ts then '' '' @ join_tokens (drop (i + 1) ts) else [])"
proof (cases "Suc i < length ts")
  case True
  then have "drop i ts = ts ! i # ts ! Suc i # drop (Suc (Suc i)) ts"
    using i by (simp add: Cons_nth_drop_Suc)
  moreover have "drop (Suc i) ts = ts ! Suc i # drop (Suc (Suc i)) ts"
    using True by (simp add: Cons_nth_drop_Suc)
  ultimately show ?thesis using True by simp
next
  case False
  then have "drop (Suc i) ts = []" by simp
  then have "drop i ts = [ts ! i]"
    using i by (metis Cons_nth_drop_Suc)
  then show ?thesis using False by simp
qed

lemma print_loop_render:
  assumes n: "count c = length toks"
    and a: "take (length toks) (args c) = map Ptr toks"
  shows "i \<le> length toks \<Longrightarrow>
         print_loop c i w = Ret () (printf (join_tokens (map quote_token (drop i toks))) w)"
proof (induction "length toks - i" arbitrary: i w)
  case 0
  then have "i = length toks" by simp
  then show ?case using n by (simp add: print_loop.simps printf_Nil)
next
  case (Suc k)
  then have i: "i < length toks" by simp
  from a have len: "length toks \<le> length (args c)"
  proof -
    have "length (take (length toks) (args c)) = length toks" by (simp add: a)
    then show ?thesis by simp
  qed
  have "take (length toks) (args c) ! i = Ptr (toks ! i)"
    using i by (simp add: a)
  then have nth: "args c ! i = Ptr (toks ! i)"
    using i by simp
  have IH: "print_loop c (i + 1) w' = Ret () (printf (join_tokens (map quote_token (drop (i + 1) toks))) w')" for w'
    using Suc.hyps(1)[of "i + 1" w'] Suc.hyps(2) i by simp
  have j: "join_tokens (map quote_token (drop i toks))
        = quote_token (toks ! i) @ (if i + 1 < length toks then '' '' @ join_tokens (map quote_token (drop (i + 1) toks)) else [])"
    using join_tokens_drop[of i "map quote_token toks"] i by (simp add: drop_map)
  show ?case
  proof -
    have ilt: "i < count c" "i < length (args c)" using i len n by simp_all
    have "print_loop c i w =
          print_loop c (i + 1)
            (let w1 = (if strchr (toks ! i) (CHR '' '') \<noteq> None
                           then printf ([CHR 0x27] @ toks ! i @ [CHR 0x27]) w
                           else printf (toks ! i) w)
             in (if i + 1 < count c then printf '' '' w1 else w1))"
      by (subst print_loop.simps) (simp only: ilt if_True nth slot.case Let_def)
    also have "\<dots> = print_loop c (i + 1) (printf (quote_token (toks ! i) @ (if i + 1 < length toks then '' '' else [])) w)"
      by (simp add: Let_def strchr_iff quote_token_def printf_printf n printf_def)
    also have "\<dots> = Ret () (printf (join_tokens (map quote_token (drop i toks))) w)"
      unfolding IH j by (simp add: printf_printf)
    finally show ?thesis .
  qed
qed

lemma print_loop_text:
  "print_loop c i w = (case print_text c i of None \<Rightarrow> Undefined | Some s \<Rightarrow> Ret () (printf s w))"
proof (induction c i w rule: print_loop.induct)
  case (1 c i w)
  show ?case
  proof (cases "i < count c \<and> i < length (args c) \<and> (\<exists>s. args c ! i = Ptr s)")
    case False
    then show ?thesis
      by (subst print_loop.simps, subst print_text.simps)
         (cases "args c ! i"; auto simp: printf_Nil)
  next
    case True
    then obtain s where s: "args c ! i = Ptr s" by auto
    show ?thesis
      apply (subst print_loop.simps, subst print_text.simps)
      using True s "1.IH"[OF _ _ s refl refl]
      apply (cases "strchr s (CHR '' '') = None"; cases "Suc i < count c";
             simp add: Let_def printf_printf split: option.splits)
      done
  qed
qed

lemma cmd_print_text:
  "cmd_print c w = (case cmd_text c of None \<Rightarrow> Undefined | Some s \<Rightarrow> Ret () (printf s w))"
  by (simp add: cmd_print_def cmd_text_def print_loop_text printf_Nil printf_printf split: option.splits)

lemma cmd_print_tokens:
  assumes "toks \<noteq> []" and "count c = length toks"
    and "take (length toks) (args c) = map Ptr toks"
  shows "cmd_print c w = Ret () (printf (render toks) w)"
  using assms print_loop_render[OF assms(2,3), of 0 w]
  by (simp add: cmd_print_def render_def printf_printf)

lemma quote_token_newline:
  "CHR ''\<newline>'' \<in> set (quote_token t) \<longleftrightarrow> CHR ''\<newline>'' \<in> set t"
  by (simp add: quote_token_def)

lemma join_tokens_newline:
  "\<forall>t\<in>set ts. CHR ''\<newline>'' \<notin> set t \<Longrightarrow> CHR ''\<newline>'' \<notin> set (join_tokens ts)"
  by (induction ts rule: join_tokens.induct) simp_all

lemma render_one_line:
  assumes "\<forall>t\<in>set toks. CHR ''\<newline>'' \<notin> set t"
  shows "count_list (render toks) (CHR ''\<newline>'') = 1"
proof -
  have "CHR ''\<newline>'' \<notin> set (join_tokens (map quote_token toks))"
    using assms by (intro join_tokens_newline) (simp add: quote_token_newline)
  then have "count_list (join_tokens (map quote_token toks)) (CHR ''\<newline>'') = 0"
    by (simp add: count_list_0_iff)
  then show ?thesis
    by (simp add: render_def)
qed

text \<open>
  C7. For a command with at least one token, \<^verbatim>\<open>cmd_print\<close> writes exactly the
  rendering of the specification: the tokens in order, separated by single spaces, a
  token in single quotes exactly when it contains a space, then one newline and nothing
  after it. The tokens are the first \<open>count\<close> slots of the array. When no token
  holds a newline of its own, the newline at the end is the only one: the rendering is
  one line.
\<close>

theorem cmd_print_renders:
  assumes "toks \<noteq> []" and "count c = length toks"
    and "take (length toks) (args c) = map Ptr toks"
  shows "cmd_print c w = Ret () (printf (render toks) w)
         \<and> last (render toks) = CHR ''\<newline>''
         \<and> ((\<forall>t\<in>set toks. CHR ''\<newline>'' \<notin> set t)
              \<longrightarrow> count_list (render toks) (CHR ''\<newline>'') = 1)"
  using cmd_print_tokens[OF assms] render_one_line
  by (simp add: render_def)

text \<open>The example of the specification.\<close>

theorem cmd_print_renders_witness:
  "[''gcc'', ''-o'', ''out file'', ''main.c''] \<noteq> []
   \<and> count (CMD [''gcc'', ''-o'', ''out file'', ''main.c''])
       = length [''gcc'', ''-o'', ''out file'', ''main.c'']
   \<and> take (length [''gcc'', ''-o'', ''out file'', ''main.c''])
         (args (CMD [''gcc'', ''-o'', ''out file'', ''main.c'']))
       = map Ptr [''gcc'', ''-o'', ''out file'', ''main.c'']
   \<and> cmd_print (CMD [''gcc'', ''-o'', ''out file'', ''main.c'']) world0
       = Ret () (world0\<lparr>stdout := ''gcc -o '' @ [CHR 0x27] @ ''out file'' @ [CHR 0x27]
                                    @ '' main.c\<newline>''\<rparr>)
   \<and> list_all (\<lambda>t. CHR ''\<newline>'' \<notin> set t) [''gcc'', ''-o'', ''out file'', ''main.c'']
   \<and> count_list (render [''gcc'', ''-o'', ''out file'', ''main.c'']) (CHR ''\<newline>'') = 1"
  using cmd_print_renders[of "[''gcc'', ''-o'', ''out file'', ''main.c'']"
          "CMD [''gcc'', ''-o'', ''out file'', ''main.c'']" world0]
  by (simp add: CMD_def render_def quote_token_def printf_def world0_def)

subsection \<open>Running\<close>

lemma cmd_run_nonempty:
  "count c \<noteq> 0 \<Longrightarrow>
   cmd_run e c w =
     (case cmd_text c of
        None \<Rightarrow> Undefined
      | Some s \<Rightarrow>
          (let w3 = log_call (Fork (args c)) (printf (''[CMD] '' @ s) w)
           in if \<not> fork_ok e (args c) (fs w) then panic e 144 ''fork failed'' w3
              else (case child e (args c) (fs w) of
                      (Exited n, fs') \<Rightarrow>
                        if n \<noteq> 0
                        then Ret 0 (eprintf (''Command failed with exit code '' @ show_nat n @ ''\<newline>'')
                                     (w3\<lparr>fs := fs'\<rparr>))
                        else Ret 1 (w3\<lparr>fs := fs'\<rparr>)
                    | (Signaled sig, fs') \<Rightarrow>
                        panic e 168 (''Build terminated with signal '' @ show_nat sig @ ''\<newline>'')
                          (w3\<lparr>fs := fs'\<rparr>)
                    | (Neither, fs') \<Rightarrow> Ret 0 (w3\<lparr>fs := fs'\<rparr>))))"
  by (simp add: cmd_run_def cmd_print_text printf_printf log_call_def printf_def Let_def
           split: option.splits prod.splits wstatus.splits)

text \<open>
  C1, as amended. On a command with no token \<^verbatim>\<open>cmd_run\<close> returns 1 and leaves the
  world as it was: nothing is printed and no child is forked. 1 is the value of success:
  on a command with tokens, \<^verbatim>\<open>cmd_run\<close> returns 1 exactly when the child exited with
  code 0, and 0 when it exited with another code.
\<close>

theorem cmd_run_empty_returns_one:
  assumes "count c = 0"
  shows "cmd_run e c w = Ret 1 w
         \<and> (\<forall>c' w1 r w2. count c' \<noteq> 0 \<and> cmd_run e c' w1 = Ret r w2
               \<longrightarrow> (r = 1) = (fst (child e (args c') (fs w1)) = Exited 0))"
proof
  show "cmd_run e c w = Ret 1 w" using assms by (simp add: cmd_run_def)
next
  show "\<forall>c' w1 r w2. count c' \<noteq> 0 \<and> cmd_run e c' w1 = Ret r w2
               \<longrightarrow> (r = 1) = (fst (child e (args c') (fs w1)) = Exited 0)"
    by (auto simp: cmd_run_nonempty Let_def panic_def
             split: option.splits if_splits prod.splits wstatus.splits)
qed

theorem cmd_run_empty_returns_one_witness:
  "count empty_cmd = 0
   \<and> cmd_run env0 empty_cmd world0 = Ret 1 world0
   \<and> count (CMD [''true'']) \<noteq> 0
   \<and> (\<exists>w2. cmd_run env0 (CMD [''true'']) world0 = Ret 1 w2)
   \<and> fst (child env0 (args (CMD [''true''])) (fs world0)) = Exited 0"
proof -
  have c: "count empty_cmd = 0" "count (CMD [''true'']) \<noteq> 0"
    by (simp_all add: empty_cmd_def CMD_def)
  obtain w2 where r: "cmd_run env0 (CMD [''true'']) world0 = Ret 1 w2"
    by (simp add: cmd_run_def cmd_print_def print_loop.simps strchr_def CMD_def env0_def Let_def)
  from cmd_run_empty_returns_one[OF c(1), of env0 world0] c(2) r
  have "cmd_run env0 empty_cmd world0 = Ret 1 world0"
    and "fst (child env0 (args (CMD [''true''])) (fs world0)) = Exited 0"
    by blast+
  with c r show ?thesis by blast
qed

text \<open>
  C1 as stated fails: the empty command returns 1, the value a child that exits with
  code 0 gives, while a child that exits with code 3 gives 0.
\<close>

theorem cmd_run_empty_counterexample:
  "count empty_cmd = 0
   \<and> cmd_run env0 empty_cmd world0 = Ret 1 world0
   \<and> cmd_run env_failing (CMD [''false'']) world0 =
       Ret 0 \<lparr>fs = Map.empty, stdout = ''[CMD] false\<newline>'',
              stderr = ''Command failed with exit code 3\<newline>'',
              calls = [Fork [Ptr ''false'', Null]], visits = []\<rparr>
   \<and> cmd_run env0 (CMD [''true'']) world0 =
       Ret 1 \<lparr>fs = Map.empty, stdout = ''[CMD] true\<newline>'', stderr = [],
              calls = [Fork [Ptr ''true'', Null]], visits = []\<rparr>"
  by (simp add: empty_cmd_def run_defs)

text \<open>
  C10. For a command with no token, \<^verbatim>\<open>cmd_print\<close> returns with the world unchanged,
  so not even a newline is written, and \<^verbatim>\<open>cmd_run\<close> returns with both streams as
  they were: the \<^verbatim>\<open>[CMD] \<close> prefix is not printed.
\<close>

theorem empty_cmd_no_output:
  assumes "count c = 0"
  shows "cmd_print c w = Ret () w
         \<and> (\<exists>r w'. cmd_run e c w = Ret r w' \<and> stdout w' = stdout w \<and> stderr w' = stderr w)"
  using assms by (simp add: cmd_print_def cmd_run_def)

theorem empty_cmd_no_output_witness:
  "count empty_cmd = 0
   \<and> cmd_print empty_cmd (printf ''x'' world0) = Ret () (printf ''x'' world0)
   \<and> (\<exists>r w'. cmd_run env0 empty_cmd (printf ''x'' world0) = Ret r w'
          \<and> stdout w' = ''x'' \<and> stderr w' = [])"
  using empty_cmd_no_output[of empty_cmd "printf ''x'' world0" env0]
  by (simp add: empty_cmd_def printf_def world0_def)

subsection \<open>Appending\<close>

text \<open>
  When \<^verbatim>\<open>count\<close> equals \<^verbatim>\<open>capacity\<close>, every token appended calls \<^verbatim>\<open>realloc\<close>:
  line 103 adds one to \<^verbatim>\<open>capacity\<close> where the array got \<^verbatim>\<open>newsize\<close> slots, so the
  two counters stay equal. Every write is inside the array.
\<close>

lemma append_loop_full:
  assumes ok: "\<And>n. realloc_ok e n"
  shows "count c = capacity c \<Longrightarrow> count c \<le> length (args c) \<Longrightarrow>
         \<exists>c'. append_loop e c toks w =
                 Ret c' (w\<lparr>calls := calls w @ map (\<lambda>k. Realloc (if k = 0 then 10 else k * 2))
                                                [count c ..< count c + length toks]\<rparr>)
              \<and> count c' = count c + length toks \<and> capacity c' = count c'
              \<and> count c' \<le> length (args c')"
proof (induction toks arbitrary: c w)
  case Nil
  then show ?case by simp
next
  case (Cons t toks)
  define k where "k = count c"
  define n where "n = (if k = 0 then 10 else k * 2)"
  define c1 where "c1 = c\<lparr>args := realloc (args c) n, capacity := k + 1\<rparr>"
  define c2 where "c2 = c1\<lparr>args := (args c1)[k := Ptr t], count := k + 1\<rparr>"
  define w2 where "w2 = log_call (Realloc n) w"
  have kn: "k < n" by (simp add: n_def)
  have g: "grow e c w = Ret c1 w2"
    using Cons.prems ok by (simp add: grow_def Let_def c1_def w2_def n_def k_def)
  have len: "length (args c1) = n"
    by (simp add: realloc_def c1_def)
  have st: "store c1 t w2 = Ret c2 w2"
    unfolding store_def using len kn by (simp add: c1_def c2_def k_def)
  have step: "append_loop e c (t # toks) w = append_loop e c2 toks w2"
    by (simp add: g st)
  have cnt: "count c2 = k + 1" "capacity c2 = k + 1" "length (args c2) = n"
    using len by (simp_all add: c2_def c1_def)
  then have "count c2 = capacity c2" "count c2 \<le> length (args c2)"
    using kn by simp_all
  then obtain c' where
    c': "append_loop e c2 toks w2 =
           Ret c' (w2\<lparr>calls := calls w2 @ map (\<lambda>k. Realloc (if k = 0 then 10 else k * 2))
                                                [count c2 ..< count c2 + length toks]\<rparr>)"
      "count c' = count c2 + length toks" "capacity c' = count c'" "count c' \<le> length (args c')"
    using Cons.IH[of c2 w2] by blast
  have "k < Suc (k + length toks)" by simp
  then have "[k ..< Suc (k + length toks)] = k # [Suc k ..< Suc (k + length toks)]"
    by (rule upt_conv_Cons)
  then show ?case
    using c' cnt unfolding step k_def[symmetric]
    by (simp add: log_call_def w2_def n_def)
qed

text \<open>
  C8, what the code does. Appending \<open>n\<close> tokens to an empty command calls \<^verbatim>\<open>realloc\<close>
  \<open>n\<close> times, once for each token, and leaves the recorded capacity at \<open>n\<close>: it grows by
  one, not geometrically. No write leaves the array: the call returns, it is not
  undefined, and the tokens counted fit the block.
\<close>

theorem cmd_append_reallocs_every_token:
  assumes "\<And>n. realloc_ok e n"
  shows "\<exists>c'. cmd_internal_append e (Some \<lparr>args = [], count = 0, capacity = 0\<rparr>) toks w =
                Ret c' (w\<lparr>calls := calls w @ map (\<lambda>k. Realloc (if k = 0 then 10 else k * 2))
                                               [0 ..< length toks]\<rparr>)
              \<and> count c' = length toks \<and> capacity c' = length toks
              \<and> count c' \<le> length (args c')"
  using append_loop_full[of e "\<lparr>args = [], count = 0, capacity = 0\<rparr>" toks w] assms
  by (auto simp: cmd_internal_append_def)

text \<open>Three tokens: three calls of \<^verbatim>\<open>realloc\<close>, for 10, 2 and 4 slots, and capacity 3.\<close>

theorem cmd_append_reallocs_every_token_witness:
  "(\<forall>n. realloc_ok env0 n)
   \<and> (\<exists>c'. cmd_internal_append env0 (Some \<lparr>args = [], count = 0, capacity = 0\<rparr>)
              [''a'', ''b'', ''c''] world0 =
            Ret c' (world0\<lparr>calls := [Realloc 10, Realloc 2, Realloc 4]\<rparr>)
          \<and> count c' = 3 \<and> capacity c' = 3 \<and> count c' \<le> length (args c'))"
proof -
  have r: "\<And>n. realloc_ok env0 n"
    by (simp add: env0_def)
  have u: "[0 ..< (3::nat)] = [0, 1, 2]"
    by (simp add: upt_rec numeral_3_eq_3)
  have m: "map (\<lambda>k. Realloc (if k = 0 then 10 else k * 2)) [0, 1, 2]
           = [Realloc 10, Realloc 2, Realloc 4]"
    by simp
  have l: "length [''a'', ''b'', ''c''] = 3"
    by simp
  have w: "world0\<lparr>calls := calls world0 @ [Realloc 10, Realloc 2, Realloc 4]\<rparr>
           = world0\<lparr>calls := [Realloc 10, Realloc 2, Realloc 4]\<rparr>"
    by (simp add: world0_def)
  show ?thesis
    using cmd_append_reallocs_every_token[of env0 "[''a'', ''b'', ''c'']" world0, OF r] r
    unfolding l u m w by blast
qed

section \<open>The self-rebuild bootstrap\<close>

lemma get_file_mtime_logs [simp]:
  "get_file_mtime p (w\<lparr>visits := v\<rparr>) = get_file_mtime p w"
  "get_file_mtime p (w\<lparr>stdout := s\<rparr>) = get_file_mtime p w"
  "get_file_mtime p (w\<lparr>stderr := s\<rparr>) = get_file_mtime p w"
  "get_file_mtime p (w\<lparr>calls := l\<rparr>) = get_file_mtime p w"
  by (simp_all add: get_file_mtime_def)

text \<open>
  C4. When the timestamp of \<^verbatim>\<open>__FILE__\<close> is not later than that of the running
  binary \<^verbatim>\<open>argv[0]\<close>, \<^verbatim>\<open>go_build_urself\<close> returns with the world as it was: no
  output, no \<^verbatim>\<open>rename\<close>, \<^verbatim>\<open>unlink\<close>, \<^verbatim>\<open>fork\<close> or \<^verbatim>\<open>execvp\<close>, the file system
  unchanged; and \<^verbatim>\<open>main\<close> goes on with the build walk of the application in that
  world.
\<close>

theorem bootstrap_up_to_date:
  assumes "get_file_mtime (src_file e) w \<le> get_file_mtime binary_path w"
  shows "go_build_urself e (binary_path # rest) w = Ret () w
         \<and> main e (binary_path # rest) w = build_walk e w"
  using assms by (simp add: main_def)

theorem bootstrap_up_to_date_witness:
  "get_file_mtime (src_file env0) world_fresh \<le> get_file_mtime ''./build'' world_fresh
   \<and> go_build_urself env0 [''./build''] world_fresh = Ret () world_fresh
   \<and> main env0 [''./build''] world_fresh = build_walk env0 world_fresh"
proof -
  have a: "get_file_mtime (src_file env0) world_fresh \<le> get_file_mtime ''./build'' world_fresh"
    by (simp add: world_fresh_def run_defs)
  show ?thesis
    using bootstrap_up_to_date[OF a, of "[]"] a by simp
qed

lemma bootstrap_cmd:
  assumes "\<And>n. realloc_ok e n"
  shows "cmd_internal_append e (Some \<lparr>args = [], count = 0, capacity = 0\<rparr>)
           [CC, src_file e, ''-o'', b] w
         = Ret \<lparr>args = rebuild_block e b, count = 4, capacity = 4\<rparr>
             (w\<lparr>calls := calls w @ [Realloc 10, Realloc 2, Realloc 4, Realloc 6]\<rparr>)"
  using assms
  apply (simp add: cmd_internal_append_def grow_def store_def realloc_def log_call_def Let_def
        rebuild_block_def)
  apply (simp add: numeral_eq_Suc)
  done

lemma old_path_neq [simp]: "old_path b \<noteq> b" "b \<noteq> old_path b"
  by (auto simp: old_path_def)

lemma rebuild_cmd_print:
  "cmd_print \<lparr>args = rebuild_block e b, count = 4, capacity = 4\<rparr> w
   = Ret () (printf (render [CC, src_file e, ''-o'', b]) w)"
  by (rule cmd_print_tokens) (simp_all add: rebuild_block_def)

lemma rebuild_cmd_run_fails:
  assumes "fork_ok e (rebuild_block e b) (fs w)"
    and "child e (rebuild_block e b) (fs w) = (st, fs2)"
    and "st = Neither \<or> (\<exists>n. st = Exited n \<and> n \<noteq> 0)"
  shows "\<exists>w4. cmd_run e \<lparr>args = rebuild_block e b, count = 4, capacity = 4\<rparr> w = Ret 0 w4
              \<and> fs w4 = fs2 \<and> calls w4 = calls w @ [Fork (rebuild_block e b)]"
  using assms
  by (auto simp: cmd_run_def rebuild_cmd_print Let_def log_call_def printf_def eprintf_def)

text \<open>
  A binary path \<open>b\<close> short enough for \<^verbatim>\<open>b.old\<close> to fit the buffer of line 182. Let the
  source be newer than \<open>b\<close>, let \<open>b\<close> exist, and let the compiler be forked, exit with a
  code other than 0, or end neither by exit nor by signal (the two ways in which
  \<^verbatim>\<open>cmd_run\<close> returns 0), and leave the backup in place.
  Then the calls are, in this order: the binary is renamed to the backup, the command
  is assembled and forked, the backup is renamed back to \<open>b\<close>, the backup path is
  unlinked, and \<^verbatim>\<open>execvp\<close> of \<open>b\<close> is called. In the final world the original
  inode \<open>f\<close> is at \<open>b\<close> again and nothing is at the backup path.
\<close>

lemma bootstrap_restores_binary:
  assumes newer: "get_file_mtime (src_file e) w > get_file_mtime b w"
    and fits: "length b + 4 < 1024"
    and exists: "fs w b = Some f"
    and mem: "\<And>n. realloc_ok e n"
    and forked: "fork_ok e (rebuild_block e b) (((fs w)(b := None))(old_path b \<mapsto> f))"
    and child: "child e (rebuild_block e b) (((fs w)(b := None))(old_path b \<mapsto> f))
                 = (st, fs2)"
    and failed: "st = Neither \<or> (\<exists>n. st = Exited n \<and> n \<noteq> 0)"
    and kept: "fs2 (old_path b) = Some f"
  shows "\<exists>w'. go_build_urself e (b # rest) w =
                (if exec_ok e b (fs w') then Replaced b (b # rest) w'
                 else panic e 209 ''How did we get here?'' w')
              \<and> calls w' = calls w @ [Rename b (old_path b),
                                       Realloc 10, Realloc 2, Realloc 4, Realloc 6,
                                       Fork (rebuild_block e b),
                                       Rename (old_path b) b, Unlink (old_path b),
                                       Execvp b (b # rest)]
              \<and> fs w' b = Some f \<and> fs w' (old_path b) = None"
proof -
  define w1 where "w1 = printf ''[INFO] rebuilding'' w"
  define w2 where "w2 = (log_call (Rename b (old_path b)) w1)\<lparr>fs := ((fs w)(b := None))(old_path b \<mapsto> f)\<rparr>"
  define w3 where "w3 = w2\<lparr>calls := calls w2 @ [Realloc 10, Realloc 2, Realloc 4, Realloc 6]\<rparr>"
  have sn: "snprintf 1024 (b @ ''.old'') = old_path b"
    using fits by (simp add: snprintf_def old_path_def)
  have r1: "rename b (old_path b) w1 = (0, w2)"
    using exists by (simp add: rename_def w1_def w2_def printf_def log_call_def)
  have a: "cmd_internal_append e (Some \<lparr>args = [], count = 0, capacity = 0\<rparr>)
            [CC, src_file e, ''-o'', b] w2
           = Ret \<lparr>args = rebuild_block e b, count = 4, capacity = 4\<rparr> w3"
    unfolding w3_def by (rule bootstrap_cmd) (rule mem)
  have fs3: "fs w3 = ((fs w)(b := None))(old_path b \<mapsto> f)"
    by (simp add: w3_def w2_def)
  have c3: "calls w3 = calls w @ [Rename b (old_path b), Realloc 10, Realloc 2, Realloc 4,
                                   Realloc 6]"
    by (simp add: w3_def w2_def w1_def log_call_def printf_def)
  obtain w4 where
    run: "cmd_run e \<lparr>args = rebuild_block e b, count = 4, capacity = 4\<rparr> w3 = Ret 0 w4"
    and fs4: "fs w4 = fs2"
    and c4: "calls w4 = calls w3 @ [Fork (rebuild_block e b)]"
    using rebuild_cmd_run_fails[of e b w3 st fs2] forked child failed
    unfolding fs3 by blast
  define w8 where "w8 = log_call (Execvp b (b # rest))
                          (printf (''[INFO] Restarting '' @ b @ ''...\<newline>'')
                             (snd (unlink (old_path b) (snd (rename (old_path b) b w4)))))"
  have go: "go_build_urself e (b # rest) w =
            (if exec_ok e b (fs w8) then Replaced b (b # rest) w8
             else panic e 209 ''How did we get here?'' w8)"
    using newer
    by (simp add: Let_def sn w1_def[symmetric] r1 a run swap_and_restart_def w8_def)
  have "calls w8 = calls w4 @ [Rename (old_path b) b, Unlink (old_path b), Execvp b (b # rest)]"
    using kept
    by (simp add: w8_def rename_def unlink_def log_call_def printf_def Let_def fs4)
  moreover have "fs w8 b = Some f \<and> fs w8 (old_path b) = None"
    using kept
    by (simp add: w8_def rename_def unlink_def log_call_def printf_def Let_def fs4)
  ultimately show ?thesis
    using go c3 c4 by auto
qed

lemma bootstrap_restores_short_path_example:
  "get_file_mtime (src_file env_failing) world_stale > get_file_mtime ''./build'' world_stale
   \<and> length ''./build'' + 4 < 1024
   \<and> fs world_stale ''./build'' = Some (file_at 1)
   \<and> (\<forall>n. realloc_ok env_failing n)
   \<and> fork_ok env_failing (rebuild_block env_failing ''./build'')
        (((fs world_stale)(''./build'' := None))(old_path ''./build'' \<mapsto> file_at 1))
   \<and> child env_failing (rebuild_block env_failing ''./build'')
        (((fs world_stale)(''./build'' := None))(old_path ''./build'' \<mapsto> file_at 1))
       = (Exited 3, ((fs world_stale)(''./build'' := None))(old_path ''./build'' \<mapsto> file_at 1))
   \<and> (\<exists>w'. go_build_urself env_failing [''./build''] world_stale
               = Replaced ''./build'' [''./build''] w'
            \<and> calls w' = [Rename ''./build'' ''./build.old'',
                           Realloc 10, Realloc 2, Realloc 4, Realloc 6,
                           Fork [Ptr ''gcc'', Ptr ''build.c'', Ptr ''-o'', Ptr ''./build'',
                                 Indeterminate, Indeterminate],
                           Rename ''./build.old'' ''./build'', Unlink ''./build.old'',
                           Execvp ''./build'' [''./build'']]
            \<and> fs w' ''./build'' = Some (file_at 1) \<and> fs w' ''./build.old'' = None)"
proof -
  have a1: "get_file_mtime (src_file env_failing) world_stale > get_file_mtime ''./build'' world_stale"
    by (simp add: world_stale_def run_defs)
  have a2: "length ''./build'' + 4 < 1024" by simp
  have a3: "fs world_stale ''./build'' = Some (file_at 1)"
    by (simp add: world_stale_def run_defs)
  have a4: "\<And>n. realloc_ok env_failing n"
    by (simp add: run_defs)
  have a5: "fork_ok env_failing (rebuild_block env_failing ''./build'')
        (((fs world_stale)(''./build'' := None))(old_path ''./build'' \<mapsto> file_at 1))"
    by (simp add: run_defs)
  have a6: "child env_failing (rebuild_block env_failing ''./build'')
        (((fs world_stale)(''./build'' := None))(old_path ''./build'' \<mapsto> file_at 1))
       = (Exited 3, ((fs world_stale)(''./build'' := None))(old_path ''./build'' \<mapsto> file_at 1))"
    by (simp add: run_defs)
  have a7: "Exited 3 = Neither \<or> (\<exists>n. Exited 3 = Exited n \<and> n \<noteq> 0)" by simp
  have a8: "(((fs world_stale)(''./build'' := None))(old_path ''./build'' \<mapsto> file_at 1))
              (old_path ''./build'') = Some (file_at 1)"
    by simp
  have x: "exec_ok env_failing p f" for p f
    by (simp add: run_defs)
  have o: "old_path ''./build'' = ''./build.old''"
    "rebuild_block env_failing ''./build''
     = [Ptr ''gcc'', Ptr ''build.c'', Ptr ''-o'', Ptr ''./build'', Indeterminate, Indeterminate]"
    "calls world_stale = []"
    by (simp_all add: old_path_def rebuild_block_def CC_def world_stale_def run_defs)
  show ?thesis
    using bootstrap_restores_binary[OF a1 a2 a3 a4 a5 a6 a7 a8, of "[]"] a1 a2 a3 a4 a5 a6
    by (simp add: x o)
qed

text \<open>
  C5, what the code does with a binary path \<open>b\<close> of 1023 characters. Line 183 cuts
  \<^verbatim>\<open>b.old\<close> to the 1023 characters the buffer holds, which are \<open>b\<close> itself. Let the
  source be newer than \<open>b\<close>, let \<open>b\<close> exist, and let the compiler be forked and fail so
  that \<^verbatim>\<open>cmd_run\<close> returns 0. Then both calls of \<^verbatim>\<open>rename\<close> are from \<open>b\<close> to \<open>b\<close>,
  line 204 unlinks \<open>b\<close>, and \<^verbatim>\<open>execvp\<close> is called on a path where no file is left:
  the original binary is not restored, whatever the compiler did.
\<close>

theorem bootstrap_long_path_loses_binary:
  assumes newer: "get_file_mtime (src_file e) w > get_file_mtime b w"
    and long: "length b = 1023"
    and exists: "fs w b = Some f"
    and mem: "\<And>n. realloc_ok e n"
    and forked: "fork_ok e (rebuild_block e b) (fs w)"
    and child: "child e (rebuild_block e b) (fs w) = (st, fs2)"
    and failed: "st = Neither \<or> (\<exists>n. st = Exited n \<and> n \<noteq> 0)"
  shows "\<exists>w'. go_build_urself e (b # rest) w =
                (if exec_ok e b (fs w') then Replaced b (b # rest) w'
                 else panic e 209 ''How did we get here?'' w')
              \<and> calls w' = calls w @ [Rename b b,
                                       Realloc 10, Realloc 2, Realloc 4, Realloc 6,
                                       Fork (rebuild_block e b),
                                       Rename b b, Unlink b,
                                       Execvp b (b # rest)]
              \<and> fs w' b = None"
proof -
  define w1 where "w1 = printf ''[INFO] rebuilding'' w"
  define w2 where "w2 = log_call (Rename b b) w1"
  define w3 where "w3 = w2\<lparr>calls := calls w2 @ [Realloc 10, Realloc 2, Realloc 4, Realloc 6]\<rparr>"
  have sn: "snprintf 1024 (b @ ''.old'') = b"
    using long by (simp add: snprintf_def)
  have same: "(fs w)(b \<mapsto> f) = fs w"
    using exists by (rule fun_upd_idem)
  have r1: "rename b b w1 = (0, w2)"
    using exists by (simp add: rename_def w1_def w2_def printf_def log_call_def same)
  have a: "cmd_internal_append e (Some \<lparr>args = [], count = 0, capacity = 0\<rparr>)
            [CC, src_file e, ''-o'', b] w2
           = Ret \<lparr>args = rebuild_block e b, count = 4, capacity = 4\<rparr> w3"
    unfolding w3_def by (rule bootstrap_cmd) (rule mem)
  have fs3: "fs w3 = fs w"
    by (simp add: w3_def w2_def w1_def log_call_def printf_def)
  have c3: "calls w3 = calls w @ [Rename b b, Realloc 10, Realloc 2, Realloc 4, Realloc 6]"
    by (simp add: w3_def w2_def w1_def log_call_def printf_def)
  obtain w4 where
    run: "cmd_run e \<lparr>args = rebuild_block e b, count = 4, capacity = 4\<rparr> w3 = Ret 0 w4"
    and c4: "calls w4 = calls w3 @ [Fork (rebuild_block e b)]"
    using rebuild_cmd_run_fails[of e b w3 st fs2] forked child failed
    unfolding fs3 by blast
  define w8 where "w8 = log_call (Execvp b (b # rest))
                          (printf (''[INFO] Restarting '' @ b @ ''...\<newline>'')
                             (snd (unlink b (snd (rename b b w4)))))"
  have go: "go_build_urself e (b # rest) w =
            (if exec_ok e b (fs w8) then Replaced b (b # rest) w8
             else panic e 209 ''How did we get here?'' w8)"
    using newer
    by (simp add: Let_def sn w1_def[symmetric] r1 a run swap_and_restart_def w8_def)
  have "calls w8 = calls w4 @ [Rename b b, Unlink b, Execvp b (b # rest)]"
    by (simp add: w8_def rename_def unlink_def log_call_def printf_def Let_def
          split: option.splits)
  moreover have "fs w8 b = None"
    by (simp add: w8_def rename_def unlink_def log_call_def printf_def Let_def
          split: option.splits)
  ultimately show ?thesis
    using go c3 c4 by auto
qed

text \<open>
  The path of 1023 letters \<^verbatim>\<open>a\<close> with a compiler that exits with code 3 and touches no
  file: the binary that was at the path is gone.
\<close>

theorem bootstrap_long_path_loses_binary_witness:
  "get_file_mtime (src_file env_lost) world_long > get_file_mtime long_path world_long
   \<and> length long_path = 1023
   \<and> fs world_long long_path = Some (file_at 1)
   \<and> (\<forall>n. realloc_ok env_lost n)
   \<and> fork_ok env_lost (rebuild_block env_lost long_path) (fs world_long)
   \<and> child env_lost (rebuild_block env_lost long_path) (fs world_long)
       = (Exited 3, fs world_long)
   \<and> (\<exists>w'. go_build_urself env_lost [long_path] world_long
               = panic env_lost 209 ''How did we get here?'' w'
            \<and> calls w' = [Rename long_path long_path,
                           Realloc 10, Realloc 2, Realloc 4, Realloc 6,
                           Fork [Ptr ''gcc'', Ptr ''build.c'', Ptr ''-o'', Ptr long_path,
                                 Indeterminate, Indeterminate],
                           Rename long_path long_path, Unlink long_path,
                           Execvp long_path [long_path]]
            \<and> fs w' long_path = None)"
proof -
  have l: "length long_path = 1023"
    by (simp add: long_path_def length_concat sum_list_replicate)
  have ne: "long_path \<noteq> ''build.c''"
  proof
    assume "long_path = ''build.c''"
    then have "length long_path = length ''build.c''" by (rule arg_cong)
    with l show False by simp
  qed
  have a1: "get_file_mtime (src_file env_lost) world_long > get_file_mtime long_path world_long"
    using ne by (simp add: world_long_def env_lost_def run_defs)
  have a3: "fs world_long long_path = Some (file_at 1)"
    using ne by (simp add: world_long_def run_defs)
  have a4: "\<And>n. realloc_ok env_lost n"
    by (simp add: env_lost_def run_defs)
  have a5: "fork_ok env_lost (rebuild_block env_lost long_path) (fs world_long)"
    by (simp add: env_lost_def run_defs)
  have a6: "child env_lost (rebuild_block env_lost long_path) (fs world_long)
            = (Exited 3, fs world_long)"
    by (simp add: env_lost_def run_defs)
  have a7: "Exited 3 = Neither \<or> (\<exists>n. Exited 3 = Exited n \<and> n \<noteq> 0)"
    by simp
  have x: "exec_ok env_lost p g \<longleftrightarrow> g p \<noteq> None" for p g
    by (simp add: env_lost_def)
  have o: "rebuild_block env_lost long_path
           = [Ptr ''gcc'', Ptr ''build.c'', Ptr ''-o'', Ptr long_path, Indeterminate, Indeterminate]"
    "calls world_long = []"
    by (simp_all add: rebuild_block_def CC_def world_long_def env_lost_def run_defs)
  from bootstrap_long_path_loses_binary[OF a1 l a3 a4 a5 a6 a7, of "[]"]
  obtain w' where w': "go_build_urself env_lost [long_path] world_long =
        (if exec_ok env_lost long_path (fs w') then Replaced long_path [long_path] w'
         else panic env_lost 209 ''How did we get here?'' w')"
    "calls w' = calls world_long @ [Rename long_path long_path, Realloc 10, Realloc 2,
        Realloc 4, Realloc 6, Fork (rebuild_block env_lost long_path),
        Rename long_path long_path, Unlink long_path, Execvp long_path [long_path]]"
    "fs w' long_path = None"
    by blast
  from w' have "go_build_urself env_lost [long_path] world_long
                  = panic env_lost 209 ''How did we get here?'' w'"
    by (simp add: x)
  moreover from w'(2) have "calls w' = [Rename long_path long_path,
                           Realloc 10, Realloc 2, Realloc 4, Realloc 6,
                           Fork [Ptr ''gcc'', Ptr ''build.c'', Ptr ''-o'', Ptr long_path,
                                 Indeterminate, Indeterminate],
                           Rename long_path long_path, Unlink long_path,
                           Execvp long_path [long_path]]"
    by (simp add: o)
  ultimately show ?thesis
    using l a1 a3 a4 a5 a6 w'(3) by blast
qed

section \<open>Building targets\<close>

lemma get_file_mtime_entry [simp]: "get_file_mtime p (entry t w) = get_file_mtime p w"
  by (simp add: entry_def)

lemma build_target_phases:
  "build_target e t w =
     (case deps_phase e t w of
        Ret nr w1 \<Rightarrow> finish e (output' t) (cmd t) (get_file_mtime (output' t) w) nr w1
      | Exit n w' \<Rightarrow> Exit n w'
      | Replaced p a w' \<Rightarrow> Replaced p a w'
      | Undefined \<Rightarrow> Undefined)"
proof (cases t)
  case (Target out ds c)
  show ?thesis
    unfolding Target
    by (simp add: deps_phase_def needs0_def entry_def Let_def split: option.splits res.splits)
qed

lemma build_deps_append:
  "build_deps e m (xs @ ys) nr w =
     (case build_deps e m xs nr w of
        Ret nr' w' \<Rightarrow> build_deps e m ys nr' w'
      | Exit n w' \<Rightarrow> Exit n w'
      | Replaced p a w' \<Rightarrow> Replaced p a w'
      | Undefined \<Rightarrow> Undefined)"
  by (induction xs arbitrary: nr w) (auto split: res.splits)

lemma build_deps_flag:
  "build_deps e m ds True w = Ret nr w' \<Longrightarrow> nr"
  by (induction ds arbitrary: w) (auto split: res.splits)

text \<open>
  C2, as amended. Let the output of \<open>t\<close> be absent and let the builds of the
  dependencies of \<open>t\<close> all return, leaving the world \<open>w1\<close>. If \<open>t\<close> has a command,
  \<^verbatim>\<open>build_target\<close> goes on as lines 253 and 254 do in \<open>w1\<close>: it runs the command with
  \<^verbatim>\<open>cmd_run\<close> and panics when that fails. If \<open>t\<close> has no command, the process exits
  with the panic of line 248, which names the output of \<open>t\<close>.
\<close>

theorem build_missing_output:
  assumes "fs w (output' t) = None" and "deps_phase e t w = Ret nr w1"
  shows "(\<forall>c. cmd t = Some c \<longrightarrow> build_target e t w = rebuild e (output' t) c w1)
         \<and> (cmd t = None \<longrightarrow>
              build_target e t w = panic e 248 (''No command provided to build '' @ output' t) w1)"
proof -
  have m: "get_file_mtime (output' t) w = 0"
    using assms(1) by (simp add: get_file_mtime_def)
  then have "needs0 e t w" by (simp add: needs0_def)
  then have "nr" using assms(2) build_deps_flag
    by (auto simp: deps_phase_def split: option.splits)
  then show ?thesis
    by (simp add: build_target_phases assms(2) finish_def m)
qed

text \<open>
  C2 as stated fails when a dependency ends the process first: \<open>tgt_cc\<close> has a
  command and no output, its dependency has neither output nor command, and the
  process exits in the dependency without printing or forking the command of
  \<open>tgt_cc\<close>; the message names the dependency.
\<close>

theorem build_missing_output_counterexample:
  "fs world0 (output' tgt_cc) = None
   \<and> cmd tgt_cc = Some (CMD [''cc''])
   \<and> build_target env0 tgt_cc world0 =
       Exit 1 \<lparr>fs = Map.empty, stdout = [],
               stderr = ''Panic at build.c:248: \<newline>>>> No command provided to build d\<newline>'',
               calls = [], visits = [tgt_cc, src_d]\<rparr>"
  by (simp add: tgt_cc_def src_d_def run_defs)

text \<open>
  With the dependency in place the command is forked, and without a command the
  panic names \<^verbatim>\<open>t\<close>.
\<close>

theorem build_missing_output_witness:
  "fs world_d (output' tgt_cc) = None
   \<and> deps_phase env0 tgt_cc world_d = Ret True (world_d\<lparr>visits := [tgt_cc, src_d]\<rparr>)
   \<and> build_target env0 tgt_cc world_d =
       rebuild env0 ''t'' (CMD [''cc'']) (world_d\<lparr>visits := [tgt_cc, src_d]\<rparr>)
   \<and> build_target env0 tgt_cc world_d =
       Ret () \<lparr>fs = [''d'' \<mapsto> file_at 5], stdout = ''[CMD] cc\<newline>'', stderr = [],
              calls = [Fork [Ptr ''cc'', Null]], visits = [tgt_cc, src_d]\<rparr>
   \<and> fs world_d (output' tgt_plain) = None
   \<and> deps_phase env0 tgt_plain world_d = Ret True (world_d\<lparr>visits := [tgt_plain, src_d]\<rparr>)
   \<and> build_target env0 tgt_plain world_d =
       Exit 1 \<lparr>fs = [''d'' \<mapsto> file_at 5], stdout = [],
               stderr = ''Panic at build.c:248: \<newline>>>> No command provided to build t\<newline>'',
               calls = [], visits = [tgt_plain, src_d]\<rparr>"
proof -
  have f: "fs world_d (output' tgt_cc) = None" "fs world_d (output' tgt_plain) = None"
    by (simp_all add: world_d_def tgt_cc_def tgt_plain_def world0_def)
  have d1: "deps_phase env0 tgt_cc world_d = Ret True (world_d\<lparr>visits := [tgt_cc, src_d]\<rparr>)"
    by (simp add: tgt_cc_def src_d_def world_d_def run_defs)
  have d2: "deps_phase env0 tgt_plain world_d = Ret True (world_d\<lparr>visits := [tgt_plain, src_d]\<rparr>)"
    by (simp add: tgt_plain_def src_d_def world_d_def run_defs)
  have c: "cmd tgt_cc = Some (CMD [''cc''])" "cmd tgt_plain = None"
    "output' tgt_cc = ''t''" "output' tgt_plain = ''t''"
    by (simp_all add: tgt_cc_def tgt_plain_def)
  have r: "rebuild env0 ''t'' (CMD [''cc'']) (world_d\<lparr>visits := [tgt_cc, src_d]\<rparr>) =
       Ret () \<lparr>fs = [''d'' \<mapsto> file_at 5], stdout = ''[CMD] cc\<newline>'', stderr = [],
              calls = [Fork [Ptr ''cc'', Null]], visits = [tgt_cc, src_d]\<rparr>"
    by (simp add: world_d_def run_defs)
  have p: "panic env0 248 (''No command provided to build '' @ ''t'') (world_d\<lparr>visits := [tgt_plain, src_d]\<rparr>) =
       Exit 1 \<lparr>fs = [''d'' \<mapsto> file_at 5], stdout = [],
               stderr = ''Panic at build.c:248: \<newline>>>> No command provided to build t\<newline>'',
               calls = [], visits = [tgt_plain, src_d]\<rparr>"
    by (simp add: world_d_def run_defs)
  show ?thesis
    using build_missing_output[OF f(1) d1] build_missing_output[OF f(2) d2] f d1 d2 c r p
    by simp
qed

text \<open>
  C6, as amended. Let \<open>t\<close> own a command, let \<^verbatim>\<open>__FILE__\<close> be newer than the output
  of \<open>t\<close> at entry, and let the builds of the dependencies of \<open>t\<close> all return, leaving
  \<open>w1\<close>. Then \<^verbatim>\<open>needs_rebuild\<close> is set and \<^verbatim>\<open>build_target\<close> runs the command in
  \<open>w1\<close>, whether or not the output exists or a dependency is newer.
\<close>

theorem build_source_newer:
  assumes "cmd t = Some c"
    and "get_file_mtime (src_file e) w > get_file_mtime (output' t) w"
    and "deps_phase e t w = Ret nr w1"
  shows "nr \<and> build_target e t w = rebuild e (output' t) c w1"
proof -
  have "needs0 e t w" using assms(1,2) by (simp add: needs0_def)
  then have "nr" using assms(3) build_deps_flag
    by (auto simp: deps_phase_def split: option.splits)
  then show ?thesis
    by (simp add: build_target_phases assms finish_def)
qed

text \<open>
  C6 as stated fails when a dependency ends the process first: the output of
  \<open>tgt_cc\<close> exists and is older than \<^verbatim>\<open>build.c\<close>, its dependency has neither output
  nor command, and the command of \<open>tgt_cc\<close> is never run.
\<close>

theorem build_source_newer_counterexample:
  "cmd tgt_cc = Some (CMD [''cc''])
   \<and> get_file_mtime (output' tgt_cc) world_t_src = 5
   \<and> get_file_mtime (src_file env0) world_t_src = 9
   \<and> build_target env0 tgt_cc world_t_src =
       Exit 1 \<lparr>fs = [''t'' \<mapsto> file_at 5, ''build.c'' \<mapsto> file_at 9], stdout = [],
               stderr = ''Panic at build.c:248: \<newline>>>> No command provided to build d\<newline>'',
               calls = [], visits = [tgt_cc, src_d]\<rparr>"
  by (simp add: tgt_cc_def src_d_def world_t_src_def run_defs)

theorem build_source_newer_witness:
  "cmd tgt_cc = Some (CMD [''cc''])
   \<and> get_file_mtime (src_file env0) world_t_d_src > get_file_mtime (output' tgt_cc) world_t_d_src
   \<and> deps_phase env0 tgt_cc world_t_d_src = Ret True (world_t_d_src\<lparr>visits := [tgt_cc, src_d]\<rparr>)
   \<and> build_target env0 tgt_cc world_t_d_src =
       Ret () \<lparr>fs = [''t'' \<mapsto> file_at 5, ''d'' \<mapsto> file_at 3, ''build.c'' \<mapsto> file_at 9],
              stdout = ''[CMD] cc\<newline>'', stderr = [],
              calls = [Fork [Ptr ''cc'', Null]], visits = [tgt_cc, src_d]\<rparr>"
proof -
  have c: "cmd tgt_cc = Some (CMD [''cc''])" "output' tgt_cc = ''t''"
    by (simp_all add: tgt_cc_def)
  have n: "get_file_mtime (src_file env0) world_t_d_src > get_file_mtime (output' tgt_cc) world_t_d_src"
    by (simp add: tgt_cc_def world_t_d_src_def run_defs)
  have d: "deps_phase env0 tgt_cc world_t_d_src = Ret True (world_t_d_src\<lparr>visits := [tgt_cc, src_d]\<rparr>)"
    by (simp add: tgt_cc_def src_d_def world_t_d_src_def run_defs)
  have r: "rebuild env0 ''t'' (CMD [''cc'']) (world_t_d_src\<lparr>visits := [tgt_cc, src_d]\<rparr>) =
       Ret () \<lparr>fs = [''t'' \<mapsto> file_at 5, ''d'' \<mapsto> file_at 3, ''build.c'' \<mapsto> file_at 9],
              stdout = ''[CMD] cc\<newline>'', stderr = [],
              calls = [Fork [Ptr ''cc'', Null]], visits = [tgt_cc, src_d]\<rparr>"
    by (simp add: world_t_d_src_def run_defs)
  show ?thesis
    using build_source_newer[OF c(1) n d] c n d r by simp
qed

text \<open>
  C3, as amended. Let \<open>d\<close> be a dependency of \<open>t\<close>, listed after the dependencies
  \<open>pre\<close> and before \<open>post\<close>, and let the builds of the dependencies of \<open>t\<close> all
  return, leaving \<open>wc\<close>. Then \<open>d\<close> was built before the staleness of \<open>t\<close> was
  decided: after \<open>pre\<close>, from a world \<open>wa\<close> to a world \<open>wb\<close>, and before \<open>post\<close>. If
  the output of \<open>d\<close> in \<open>wb\<close>, right after its build, is newer than the output of \<open>t\<close>
  was at entry, then \<^verbatim>\<open>needs_rebuild\<close> is set; the command of \<open>t\<close>, if it has one, is
  run in \<open>wc\<close>, also when the output of \<open>t\<close> exists. If \<open>t\<close> has no command nothing is
  rebuilt: the call returns when the output has a timestamp other than 0, and panics
  otherwise.
\<close>

theorem dependency_newer_rebuilds:
  assumes "deps t = Some (pre @ d # post)"
    and "deps_phase e t w = Ret nr wc"
  shows "\<exists>nra wa wb.
           build_deps e (get_file_mtime (output' t) w) pre (needs0 e t w) (entry t w) = Ret nra wa
           \<and> build_target e d wa = Ret () wb
           \<and> build_deps e (get_file_mtime (output' t) w) post
                (if get_file_mtime (output' d) wb > get_file_mtime (output' t) w then True else nra)
                wb = Ret nr wc
           \<and> (get_file_mtime (output' d) wb > get_file_mtime (output' t) w \<longrightarrow>
                nr
                \<and> (\<forall>c. cmd t = Some c \<longrightarrow> build_target e t w = rebuild e (output' t) c wc)
                \<and> (cmd t = None \<longrightarrow>
                     build_target e t w =
                       (if get_file_mtime (output' t) w = 0
                        then panic e 248 (''No command provided to build '' @ output' t) wc
                        else Ret () wc)))"
proof -
  let ?m = "get_file_mtime (output' t) w"
  have all: "build_deps e ?m (pre @ d # post) (needs0 e t w) (entry t w) = Ret nr wc"
    using assms by (simp add: deps_phase_def)
  then obtain nra wa where
    p: "build_deps e ?m pre (needs0 e t w) (entry t w) = Ret nra wa"
    and q: "build_deps e ?m (d # post) nra wa = Ret nr wc"
    by (auto simp: build_deps_append split: res.splits)
  from q obtain wb where
    b: "build_target e d wa = Ret () wb"
    and r: "build_deps e ?m post (if get_file_mtime (output' d) wb > ?m then True else nra) wb
            = Ret nr wc"
    by (auto split: res.splits)
  have "nr" if "get_file_mtime (output' d) wb > ?m"
    using r that build_deps_flag by auto
  then have concl: "get_file_mtime (output' d) wb > ?m \<longrightarrow>
                nr
                \<and> (\<forall>c. cmd t = Some c \<longrightarrow> build_target e t w = rebuild e (output' t) c wc)
                \<and> (cmd t = None \<longrightarrow>
                     build_target e t w =
                       (if ?m = 0
                        then panic e 248 (''No command provided to build '' @ output' t) wc
                        else Ret () wc))"
    by (simp add: build_target_phases assms(2) finish_def)
  show ?thesis
    by (rule exI[of _ nra], rule exI[of _ wa], rule exI[of _ wb]) (use p b r concl in simp)
qed

text \<open>
  C3 as stated fails for a target without a command: the dependency of \<open>tgt_plain\<close>
  is built first and is newer, yet the call returns without any output or call.
\<close>

theorem dependency_newer_counterexample:
  "deps tgt_plain = Some [src_d]
   \<and> get_file_mtime (output' tgt_plain) world_dep_newer = 5
   \<and> build_target env0 src_d (world_dep_newer\<lparr>visits := [tgt_plain]\<rparr>)
       = Ret () (world_dep_newer\<lparr>visits := [tgt_plain, src_d]\<rparr>)
   \<and> get_file_mtime (output' src_d) (world_dep_newer\<lparr>visits := [tgt_plain, src_d]\<rparr>) = 10
   \<and> build_target env0 tgt_plain world_dep_newer =
       Ret () \<lparr>fs = [''t'' \<mapsto> file_at 5, ''d'' \<mapsto> file_at 10], stdout = [], stderr = [],
              calls = [], visits = [tgt_plain, src_d]\<rparr>"
  by (simp add: tgt_plain_def src_d_def world_dep_newer_def run_defs)

text \<open>
  With the command \<^verbatim>\<open>cc\<close> the newer dependency makes \<^verbatim>\<open>build_target\<close> fork the
  command although \<^verbatim>\<open>t\<close> exists; without a command the call returns.
\<close>

theorem dependency_newer_rebuilds_witness:
  "deps tgt_cc = Some ([] @ src_d # [])
   \<and> deps_phase env0 tgt_cc world_dep_newer = Ret True (world_dep_newer\<lparr>visits := [tgt_cc, src_d]\<rparr>)
   \<and> (\<exists>wa wb. build_target env0 src_d wa = Ret () wb
          \<and> get_file_mtime (output' src_d) wb > get_file_mtime (output' tgt_cc) world_dep_newer)
   \<and> cmd tgt_cc = Some (CMD [''cc''])
   \<and> build_target env0 tgt_cc world_dep_newer =
       Ret () \<lparr>fs = [''t'' \<mapsto> file_at 5, ''d'' \<mapsto> file_at 10],
              stdout = ''[CMD] cc\<newline>'', stderr = [],
              calls = [Fork [Ptr ''cc'', Null]], visits = [tgt_cc, src_d]\<rparr>
   \<and> deps tgt_plain = Some ([] @ src_d # [])
   \<and> deps_phase env0 tgt_plain world_dep_newer
       = Ret True (world_dep_newer\<lparr>visits := [tgt_plain, src_d]\<rparr>)
   \<and> cmd tgt_plain = None
   \<and> build_target env0 tgt_plain world_dep_newer =
       Ret () (world_dep_newer\<lparr>visits := [tgt_plain, src_d]\<rparr>)"
proof -
  have a1: "deps tgt_cc = Some ([] @ src_d # [])"
    by (simp add: tgt_cc_def)
  have a2: "deps_phase env0 tgt_cc world_dep_newer
            = Ret True (world_dep_newer\<lparr>visits := [tgt_cc, src_d]\<rparr>)"
    by (simp add: tgt_cc_def src_d_def world_dep_newer_def run_defs)
  have c: "cmd tgt_cc = Some (CMD [''cc''])" "output' tgt_cc = ''t''"
    "get_file_mtime ''t'' world_dep_newer = 5"
    by (simp_all add: tgt_cc_def world_dep_newer_def run_defs)
  have r: "rebuild env0 ''t'' (CMD [''cc'']) (world_dep_newer\<lparr>visits := [tgt_cc, src_d]\<rparr>) =
       Ret () \<lparr>fs = [''t'' \<mapsto> file_at 5, ''d'' \<mapsto> file_at 10],
              stdout = ''[CMD] cc\<newline>'', stderr = [],
              calls = [Fork [Ptr ''cc'', Null]], visits = [tgt_cc, src_d]\<rparr>"
    by (simp add: world_dep_newer_def run_defs)
  have b1: "deps tgt_plain = Some ([] @ src_d # [])"
    by (simp add: tgt_plain_def)
  have b2: "deps_phase env0 tgt_plain world_dep_newer
            = Ret True (world_dep_newer\<lparr>visits := [tgt_plain, src_d]\<rparr>)"
    by (simp add: tgt_plain_def src_d_def world_dep_newer_def run_defs)
  have d: "cmd tgt_plain = None" "output' tgt_plain = ''t''"
    by (simp_all add: tgt_plain_def)
  have n: "get_file_mtime (output' src_d) wb > 5" if "build_target env0 src_d wa = Ret () wb"
      and "fs wa = fs world_dep_newer" for wa wb
    using that by (auto simp: src_d_def world_dep_newer_def run_defs)
  have fa: "fs wa = fs world_dep_newer"
    if "build_deps env0 5 [] (needs0 env0 t world_dep_newer) (entry t world_dep_newer) = Ret nra wa"
    for t nra wa
    using that by (auto simp: entry_def)
  from dependency_newer_rebuilds[OF a1 a2] obtain nra wa wb where
    x: "build_deps env0 5 [] (needs0 env0 tgt_cc world_dep_newer) (entry tgt_cc world_dep_newer)
        = Ret nra wa"
      "build_target env0 src_d wa = Ret () wb"
      "get_file_mtime (output' src_d) wb > 5 \<longrightarrow>
         (\<forall>c. cmd tgt_cc = Some c
               \<longrightarrow> build_target env0 tgt_cc world_dep_newer
                   = rebuild env0 ''t'' c (world_dep_newer\<lparr>visits := [tgt_cc, src_d]\<rparr>))"
    unfolding c by blast
  have x4: "get_file_mtime (output' src_d) wb > 5"
    using n[OF x(2) fa[OF x(1)]] .
  from dependency_newer_rebuilds[OF b1 b2] obtain nrb wa' wb' where
    y: "build_deps env0 5 [] (needs0 env0 tgt_plain world_dep_newer) (entry tgt_plain world_dep_newer)
        = Ret nrb wa'"
      "build_target env0 src_d wa' = Ret () wb'"
      "get_file_mtime (output' src_d) wb' > 5 \<longrightarrow>
         (cmd tgt_plain = None
            \<longrightarrow> build_target env0 tgt_plain world_dep_newer
                = (if (5::int) = 0
                   then panic env0 248 (''No command provided to build '' @ ''t'')
                          (world_dep_newer\<lparr>visits := [tgt_plain, src_d]\<rparr>)
                   else Ret () (world_dep_newer\<lparr>visits := [tgt_plain, src_d]\<rparr>)))"
    unfolding d c by blast
  have y4: "get_file_mtime (output' src_d) wb' > 5"
    using n[OF y(2) fa[OF y(1)]] .
  have "build_target env0 tgt_cc world_dep_newer =
       Ret () \<lparr>fs = [''t'' \<mapsto> file_at 5, ''d'' \<mapsto> file_at 10],
              stdout = ''[CMD] cc\<newline>'', stderr = [],
              calls = [Fork [Ptr ''cc'', Null]], visits = [tgt_cc, src_d]\<rparr>"
    using x(3) x4 c(1) r by simp
  moreover have "build_target env0 tgt_plain world_dep_newer =
       Ret () (world_dep_newer\<lparr>visits := [tgt_plain, src_d]\<rparr>)"
    using y(3) y4 d(1) by simp
  moreover have "\<exists>wa wb. build_target env0 src_d wa = Ret () wb
          \<and> get_file_mtime (output' src_d) wb > get_file_mtime (output' tgt_cc) world_dep_newer"
    using x(2) x4 c by auto
  ultimately show ?thesis
    using a1 a2 b1 b2 c(1) d(1) by simp
qed

section \<open>A run only adds to the logs\<close>


lemma after_sel [simp]:
  "fs (after w d) = fs d"
  "stdout (after w d) = stdout w @ stdout d"
  "stderr (after w d) = stderr w @ stderr d"
  "calls (after w d) = calls w @ calls d"
  "visits (after w d) = visits w @ visits d"
  by (simp_all add: after_def)


lemma get_file_mtime_after [simp]: "get_file_mtime p (after w d) = get_file_mtime p d"
  by (simp add: get_file_mtime_def)





lemma needs0_after [simp]: "needs0 e t (after w d) = needs0 e t d"
  by (simp add: needs0_def)

lemma needs0_entry [simp]: "needs0 e t (entry t' w) = needs0 e t w"
  by (simp add: needs0_def)




section \<open>Visits of a walk\<close>

lemma step_ok_refl [simp]: "step_ok w w"
  by (simp add: step_ok_def)


lemma step_ok_logs [simp]:
  "step_ok w (w\<lparr>visits := v\<rparr>)" "step_ok w (printf s w)"
  by (simp_all add: step_ok_def printf_def)


















end
